theory Spec2Isabelle
  imports Complex_Main "HOL-Library.Sublist"
begin

section \<open>Python strings\<close>

text \<open>
  A Python \<open>str\<close> is modelled as a \<open>string\<close> whose characters are the code points
  0 to 255 (ASCII and Latin-1). \<open>str.lower\<close>, \<open>str.strip\<close>, \<open>str.replace\<close> with an
  empty replacement and the substring test \<open>a in b\<close> are written out for that range.
\<close>

definition isupper :: "char \<Rightarrow> bool" where
  "isupper c = (let n = (of_char c :: nat) in
     (65 \<le> n \<and> n \<le> 90) \<or> (192 \<le> n \<and> n \<le> 222 \<and> n \<noteq> 215))"

text \<open>Lowering a cased character below 256 adds 32, that is, sets bit 5.\<close>

fun lower_chr :: "char \<Rightarrow> char" where
  "lower_chr (Char b0 b1 b2 b3 b4 b5 b6 b7) =
     (if isupper (Char b0 b1 b2 b3 b4 b5 b6 b7) then Char b0 b1 b2 b3 b4 True b6 b7
      else Char b0 b1 b2 b3 b4 b5 b6 b7)"

definition lower :: "string \<Rightarrow> string" where
  "lower s = map lower_chr s"

definition isspace :: "char \<Rightarrow> bool" where
  "isspace c = (let n = (of_char c :: nat) in
     (9 \<le> n \<and> n \<le> 13) \<or> (28 \<le> n \<and> n \<le> 32) \<or> n = 133 \<or> n = 160)"

definition strip :: "string \<Rightarrow> string" where
  "strip s = rev (dropWhile isspace (rev (dropWhile isspace s)))"

text \<open>\<open>s.replace(c, '')\<close> for a one-character \<open>c\<close>.\<close>

definition remove_chr :: "char \<Rightarrow> string \<Rightarrow> string" where
  "remove_chr c s = filter (\<lambda>x. x \<noteq> c) s"

text \<open>\<open>a in b\<close> on strings: \<open>a\<close> occurs in \<open>b\<close> as a contiguous run.\<close>

fun str_in :: "string \<Rightarrow> string \<Rightarrow> bool" where
  "str_in a [] = (a = [])"
| "str_in a (c # cs) = (prefix a (c # cs) \<or> str_in a cs)"

text \<open>\<open>str(n)\<close> for an integer: decimal digits, a minus sign when negative.\<close>

fun py_str_nat :: "nat \<Rightarrow> string" where
  "py_str_nat n =
     (if n < 10 then [''0123456789'' ! n]
      else py_str_nat (n div 10) @ [''0123456789'' ! (n mod 10)])"

declare py_str_nat.simps [simp del]

definition py_str_int :: "int \<Rightarrow> string" where
  "py_str_int i = (if i < 0 then CHR ''-'' # py_str_nat (nat (- i)) else py_str_nat (nat i))"

section \<open>The owned-books snapshot\<close>

text \<open>
  An entry of the dictionary built by \<open>get_owned_books_with_titles\<close> and extended by
  \<open>SyncJob.run\<close>. The dictionary itself is an association list in insertion order, the
  order in which Python iterates over it.
\<close>

record book_info =
  info_id :: string
  info_title :: string
  info_authors :: "string list"
  info_isbns :: "string set"
  info_slug :: "string option"

type_synonym owned_dict = "(string \<times> book_info) list"

text \<open>\<open>d[k] = v\<close>: an existing key keeps its position, a new key goes last.\<close>

fun dict_set :: "'k \<Rightarrow> 'v \<Rightarrow> ('k \<times> 'v) list \<Rightarrow> ('k \<times> 'v) list" where
  "dict_set k v [] = [(k, v)]"
| "dict_set k v ((k', v') # d) = (if k' = k then (k, v) # d else (k', v') # dict_set k v d)"

section \<open>HardcoverAPI.is_book_already_owned\<close>

text \<open>
  \<open>clean_isbn = isbn.replace('-', '').replace(' ', '') if isbn else None\<close>; the
  argument is \<open>None\<close> or a string.
\<close>

definition clean_isbn_of :: "string option \<Rightarrow> string option" where
  "clean_isbn_of isbn =
     (case isbn of
        None \<Rightarrow> None
      | Some s \<Rightarrow> if s = [] then None else Some (remove_chr CHR '' '' (remove_chr CHR ''-'' s)))"

text \<open>The test \<open>if clean_isbn and book_info['isbns']: if clean_isbn in book_info['isbns']\<close>.\<close>

definition isbn_hit :: "string option \<Rightarrow> book_info \<Rightarrow> bool" where
  "isbn_hit clean_isbn info =
     (case clean_isbn of
        None \<Rightarrow> False
      | Some ci \<Rightarrow> ci \<noteq> [] \<and> info_isbns info \<noteq> {} \<and> ci \<in> info_isbns info)"

text \<open>The two nested loops over the lowercased, stripped author names.\<close>

definition authors_overlap :: "string list \<Rightarrow> string list \<Rightarrow> bool" where
  "authors_overlap authors theirs =
     (let calibre_authors = map (\<lambda>a. strip (lower a)) authors;
          hardcover_authors = map (\<lambda>a. strip (lower a)) theirs
      in list_ex (\<lambda>ca. list_ex (\<lambda>ha. str_in ca ha \<or> str_in ha ca) hardcover_authors)
           calibre_authors)"

text \<open>The fuzzy title comparison of one entry.\<close>

definition titles_match :: "string \<Rightarrow> string \<Rightarrow> bool" where
  "titles_match clean_title theirs =
     (clean_title = theirs \<or> str_in clean_title theirs \<or> str_in theirs clean_title)"

text \<open>The title branch of the loop body: does it return this entry's id?\<close>

definition title_hit :: "string \<Rightarrow> string list \<Rightarrow> book_info \<Rightarrow> bool" where
  "title_hit clean_title authors info =
     (if info_title info \<noteq> [] \<and> clean_title \<noteq> [] then
        if titles_match clean_title (info_title info) then
          if authors \<noteq> [] \<and> info_authors info \<noteq> [] then
            authors_overlap authors (info_authors info)
          else True
        else False
      else False)"

text \<open>The \<open>for book_id, book_info in owned_books.items()\<close> loop.\<close>

fun owned_loop ::
  "string \<Rightarrow> string list \<Rightarrow> string option \<Rightarrow> owned_dict \<Rightarrow> string option" where
  "owned_loop clean_title authors clean_isbn [] = None"
| "owned_loop clean_title authors clean_isbn ((book_id, info) # rest) =
     (if isbn_hit clean_isbn info then Some book_id
      else if title_hit clean_title authors info then Some book_id
      else owned_loop clean_title authors clean_isbn rest)"

definition is_book_already_owned ::
  "string \<Rightarrow> string list \<Rightarrow> string option \<Rightarrow> owned_dict \<Rightarrow> string option" where
  "is_book_already_owned title authors isbn owned_books =
     owned_loop (strip (lower title)) authors (clean_isbn_of isbn) owned_books"

section \<open>Exceptions\<close>

text \<open>
  Every exception the code handles is caught by \<open>except Exception\<close>; the handlers read
  only \<open>str(e)\<close>, which is what an exception value carries here.
\<close>

datatype py_exception = Exception string

fun exc_str :: "py_exception \<Rightarrow> string" where
  "exc_str (Exception msg) = msg"

text \<open>\<open>'{s}'\<close> inside an f-string: the text between two apostrophes.\<close>

definition quoted :: "string \<Rightarrow> string" where
  "quoted s = [CHR 0x27] @ s @ [CHR 0x27]"

text \<open>Truthiness of an optional string: neither \<open>None\<close> nor empty.\<close>

definition truthy :: "string option \<Rightarrow> bool" where
  "truthy v = (case v of None \<Rightarrow> False | Some s \<Rightarrow> s \<noteq> [])"

section \<open>HardcoverAPI: the clock, throttling and run\_query\<close>

text \<open>
  The client object with the fields \<open>__init__\<close> sets. Time is a real number of seconds;
  \<open>time.time()\<close> reads the clock that is passed along, \<open>time.sleep(x)\<close> advances it by
  \<open>x\<close>, and an HTTP exchange advances it by its latency.
\<close>

record hardcover_api =
  token :: string
  last_request :: real
  rate_limit_delay :: real
  requests_per_minute :: real

definition new_hardcover_api :: "string \<Rightarrow> real \<Rightarrow> hardcover_api" where
  "new_hardcover_api tok delay =
     \<lparr>token = tok, last_request = 0, rate_limit_delay = delay, requests_per_minute = 60\<rparr>"

text \<open>\<open>_throttle\<close>: the clock after the sleep, if any.\<close>

definition throttle :: "hardcover_api \<Rightarrow> real \<Rightarrow> real" where
  "throttle api now =
     (let elapsed = now - last_request api;
          min_delay = 60 / requests_per_minute api
      in if elapsed < min_delay then now + (min_delay - elapsed) else now)"

text \<open>
  A key of a JSON object is missing, or holds \<open>null\<close>, or holds a value; \<open>dict.get\<close>
  with a default returns the default only for a missing key.
\<close>

datatype 'a json_field = Absent | Null | Value 'a

text \<open>
  What \<open>urlopen\<close> and the decoding of the body do in one exchange. The first three
  are raised by \<open>urlopen\<close> itself; \<open>ReadFailure\<close> (\<open>resp.read()\<close> or \<open>decode\<close>
  raising) and \<open>JSONDecodeError\<close> (\<open>json.loads\<close>) come after \<open>_last_request\<close>
  has been set. A decoded body is a JSON object with the keys \<open>errors\<close> (a list of
  error objects, each given by its key \<open>message\<close>) and \<open>data\<close> (an object, given
  by the one root field the query selects).
\<close>

record 'a graphql_body =
  body_errors :: "string json_field list json_field"
  body_data :: "'a json_field json_field"

datatype 'a http_result =
    HTTPError nat string
  | URLError string
  | OtherFailure string
  | ReadFailure string
  | JSONDecodeError string
  | Response "'a graphql_body"

record 'a http_exchange =
  latency :: real
  http_result :: "'a http_result"

text \<open>
  The message for a body that has the key \<open>errors\<close>: the \<open>message\<close> of the first
  error of a non-empty list, else \<open>str(error_details)\<close>.
\<close>

definition graphql_error_msg :: "string json_field list json_field \<Rightarrow> string" where
  "graphql_error_msg error_details =
     (case error_details of
        Value (first # _) \<Rightarrow>
          (case first of
             Absent \<Rightarrow> ''Unknown GraphQL error''
           | Null \<Rightarrow> ''None''
           | Value m \<Rightarrow> m)
      | Value [] \<Rightarrow> ''[]''
      | _ \<Rightarrow> ''None'')"

text \<open>
  What \<open>run_query\<close> returns, \<open>data.get('data', {})\<close>: Python's \<open>None\<close> when the
  key \<open>data\<close> holds \<open>null\<close>, else a dictionary, given by its root field (the empty
  dictionary has none).
\<close>

definition returned_data :: "'a json_field json_field \<Rightarrow> 'a json_field option" where
  "returned_data d = (case d of Absent \<Rightarrow> Some Absent | Null \<Rightarrow> None | Value v \<Rightarrow> Some v)"

definition http_error_msg :: "nat \<Rightarrow> string \<Rightarrow> string" where
  "http_error_msg code reason =
     (let error_msg = ''HTTP '' @ py_str_nat code @ '': '' @ reason
      in if code = 401 then error_msg @ '' - Invalid API token''
         else if code = 429 then error_msg @ '' - Rate limit exceeded''
         else error_msg)"

definition run_query ::
  "hardcover_api \<Rightarrow> real \<Rightarrow> 'a http_exchange
     \<Rightarrow> hardcover_api \<times> real \<times> (py_exception + 'a json_field option)" where
  "run_query api now x =
     (let sent = throttle api now;
          answered = sent + latency x
      in case http_result x of
           HTTPError code reason \<Rightarrow>
             (api, answered, Inl (Exception (http_error_msg code reason)))
         | URLError reason \<Rightarrow> (api, answered, Inl (Exception (''Network error: '' @ reason)))
         | OtherFailure msg \<Rightarrow> (api, answered, Inl (Exception (''Request failed: '' @ msg)))
         | ReadFailure msg \<Rightarrow>
             (api\<lparr>last_request := answered\<rparr>, answered,
              Inl (Exception (''Request failed: '' @ msg)))
         | JSONDecodeError msg \<Rightarrow>
             (api\<lparr>last_request := answered\<rparr>, answered,
              Inl (Exception (''Invalid JSON response: '' @ msg)))
         | Response body \<Rightarrow>
             (api\<lparr>last_request := answered\<rparr>, answered,
              case body_errors body of
                Absent \<Rightarrow> Inr (returned_data (body_data body))
              | error_details \<Rightarrow>
                  Inl (Exception (''GraphQL error: '' @ graphql_error_msg error_details))))"

text \<open>
  Consecutive calls through one client: each starts when the previous one has returned.
  The result lists, for every call, the time its request was sent.
\<close>

fun run_queries ::
  "hardcover_api \<Rightarrow> real \<Rightarrow> 'a http_exchange list \<Rightarrow> hardcover_api \<times> real \<times> real list" where
  "run_queries api now [] = (api, now, [])"
| "run_queries api now (x # xs) =
     (case run_query api now x of
        (api', now', _) \<Rightarrow>
          (case run_queries api' now' xs of
             (api'', now'', sent) \<Rightarrow> (api'', now'', throttle api now # sent)))"

section \<open>HardcoverAPI: the search methods\<close>

text \<open>
  The rows of a response have the fields the query selects; a nullable field is an
  option. Of a book row only the fields some code path reads or writes are kept.
  The argument \<open>remote\<close> of a method stands for \<open>self.run_query(query, \<dots>)\<close> as a
  function of the variables the method sends.
\<close>

record edition_fields =
  ed_id :: int
  ed_isbn_10 :: "string option"
  ed_isbn_13 :: "string option"
  ed_title :: "string option"

record book_row =
  row_id :: int
  row_title :: "string option"
  row_slug :: "string option"
  matching_edition :: "edition_fields option"

record edition_row =
  ed_fields :: edition_fields
  ed_book :: "book_row option"

text \<open>The variable \<open>title\<close> of the search query: \<open>f"%{title}%"\<close>.\<close>

definition title_variables :: "string \<Rightarrow> string" where
  "title_variables title = ''%'' @ title @ ''%''"

text \<open>
  The result is a list or Python's \<open>None\<close>: \<open>data.get('books', [])\<close> is \<open>[]\<close> for a
  missing key and \<open>None\<close> for \<open>null\<close>. When \<open>data\<close> itself is \<open>None\<close>, \<open>data.get\<close>
  raises AttributeError inside the \<open>try\<close>.
\<close>

definition search_books_by_title ::
  "(string \<Rightarrow> py_exception + book_row list json_field option) \<Rightarrow> string
     \<Rightarrow> book_row list option" where
  "search_books_by_title remote title =
     (case remote (title_variables title) of
        Inl e \<Rightarrow> Some []
      | Inr data \<Rightarrow>
          (case data of
             None \<Rightarrow> Some []
           | Some Absent \<Rightarrow> Some []
           | Some Null \<Rightarrow> None
           | Some (Value books) \<Rightarrow> Some books))"

text \<open>The loop that turns editions into books, keeping the edition beside the book.\<close>

fun editions_to_books :: "edition_row list \<Rightarrow> book_row list" where
  "editions_to_books [] = []"
| "editions_to_books (edition # editions) =
     (case ed_book edition of
        None \<Rightarrow> editions_to_books editions
      | Some book \<Rightarrow>
          book\<lparr>matching_edition := Some (ed_fields edition)\<rparr> # editions_to_books editions)"

text \<open>The variables \<open>isbn10\<close> and \<open>isbn13\<close> of the search query.\<close>

definition isbn_variables :: "string \<Rightarrow> string option \<times> string option" where
  "isbn_variables isbn =
     (let clean_isbn = remove_chr CHR '' '' (remove_chr CHR ''-'' isbn);
          isbn_10 = (if length clean_isbn = 10 then Some clean_isbn else None);
          isbn_13 = (if length clean_isbn = 13 then Some clean_isbn else None)
      in (isbn_10, isbn_13))"

text \<open>
  Here the result is always a list: the loop over \<open>data.get('editions', [])\<close> raises
  TypeError inside the \<open>try\<close> when the key holds \<open>null\<close>.
\<close>

definition search_books_by_isbn ::
  "(string option \<times> string option \<Rightarrow> py_exception + edition_row list json_field option)
     \<Rightarrow> string \<Rightarrow> book_row list" where
  "search_books_by_isbn remote isbn =
     (case remote (isbn_variables isbn) of
        Inl e \<Rightarrow> []
      | Inr data \<Rightarrow>
          (case data of
             None \<Rightarrow> []
           | Some Absent \<Rightarrow> editions_to_books []
           | Some Null \<Rightarrow> []
           | Some (Value editions) \<Rightarrow> editions_to_books editions))"

section \<open>HardcoverAPI.get\_owned\_books\_with\_titles\<close>

record author_row =
  author_name :: "string option"

record contribution_row =
  contrib_author :: "author_row option"

record edition_isbns =
  isbn_10 :: "string option"
  isbn_13 :: "string option"

record owned_book_row =
  ob_id :: int
  ob_title :: "string option"
  ob_slug :: "string option"
  ob_contributions :: "contribution_row list"
  ob_editions :: "edition_isbns list"

record user_book_row =
  ub_book_id :: int
  ub_book :: "owned_book_row option"

text \<open>The isbns of the editions, added to the set as the remote side returned them.\<close>

fun extract_isbns :: "edition_isbns list \<Rightarrow> string set \<Rightarrow> string set" where
  "extract_isbns [] isbns = isbns"
| "extract_isbns (edition # editions) isbns =
     (let isbns1 = (case isbn_10 edition of
                      None \<Rightarrow> isbns
                    | Some v \<Rightarrow> if v \<noteq> [] then insert v isbns else isbns);
          isbns2 = (case isbn_13 edition of
                      None \<Rightarrow> isbns1
                    | Some v \<Rightarrow> if v \<noteq> [] then insert v isbns1 else isbns1)
      in extract_isbns editions isbns2)"

text \<open>
  The author names. \<open>contrib.get('author', {}).get('name')\<close> raises AttributeError when
  the author is \<open>null\<close>.
\<close>

definition no_attribute :: "string \<Rightarrow> py_exception" where
  "no_attribute name =
     Exception (quoted ''NoneType'' @ '' object has no attribute '' @ quoted name)"

fun extract_authors :: "contribution_row list \<Rightarrow> string list \<Rightarrow> py_exception + string list" where
  "extract_authors [] authors = Inr authors"
| "extract_authors (contrib # contribs) authors =
     (case contrib_author contrib of
        None \<Rightarrow> Inl (no_attribute ''get'')
      | Some author \<Rightarrow>
          (case author_name author of
             None \<Rightarrow> extract_authors contribs authors
           | Some name \<Rightarrow>
               if name \<noteq> [] then extract_authors contribs (authors @ [name])
               else extract_authors contribs authors))"

text \<open>
  The loop over \<open>user_books\<close> inside the \<open>try\<close>: a \<open>null\<close> book or a \<open>null\<close> title
  raises AttributeError, which ends the loop.
\<close>

fun owned_from_rows :: "user_book_row list \<Rightarrow> owned_dict \<Rightarrow> py_exception + owned_dict" where
  "owned_from_rows [] owned_books = Inr owned_books"
| "owned_from_rows (user_book # user_books) owned_books =
     (case ub_book user_book of
        None \<Rightarrow> Inl (no_attribute ''get'')
      | Some book_data \<Rightarrow>
          (let book_id = py_str_int (ob_id book_data)
           in if book_id \<noteq> [] then
                (let isbns = extract_isbns (ob_editions book_data) {}
                 in case extract_authors (ob_contributions book_data) [] of
                      Inl e \<Rightarrow> Inl e
                    | Inr authors \<Rightarrow>
                        (case ob_title book_data of
                           None \<Rightarrow> Inl (no_attribute ''lower'')
                         | Some t \<Rightarrow>
                             owned_from_rows user_books
                               (dict_set book_id
                                  \<lparr>info_id = book_id, info_title = strip (lower t),
                                   info_authors = authors, info_isbns = isbns,
                                   info_slug = ob_slug book_data\<rparr>
                                  owned_books)))
              else owned_from_rows user_books owned_books))"

text \<open>
  The whole body is inside the \<open>try\<close>: a failing remote call, \<open>data\<close> being \<open>None\<close>,
  a \<open>null\<close> list of user books and an exception in the loop all give \<open>{}\<close>.
\<close>

definition get_owned_books_with_titles ::
  "(py_exception + user_book_row list json_field option) \<Rightarrow> owned_dict" where
  "get_owned_books_with_titles remote =
     (case remote of
        Inl e \<Rightarrow> []
      | Inr data \<Rightarrow>
          (case data of
             None \<Rightarrow> []
           | Some Absent \<Rightarrow> []
           | Some Null \<Rightarrow> []
           | Some (Value user_books) \<Rightarrow>
               (case owned_from_rows user_books [] of
                  Inl e \<Rightarrow> []
                | Inr owned_books \<Rightarrow> owned_books)))"

section \<open>SyncJob\<close>

text \<open>
  The job object: the \<open>results\<close> dictionary, the progress field \<open>percent\<close> and the
  status message. Two more fields record what the run does and are read by no code:
  \<open>percent_trace\<close> is the sequence of values written to \<open>percent\<close>, \<open>api_trace\<close> the
  sequence of calls made on the client.
\<close>

datatype api_call =
    SearchByIsbn string
  | SearchByTitle string
  | CreateBook string
  | AddToOwned string

record sync_job =
  added_to_owned :: int
  skipped_already_owned :: int
  created_new_books :: int
  existing_owned_count :: int
  errors :: int
  error_details :: "string list"
  percent :: int
  status_message :: string
  percent_trace :: "int list"
  api_trace :: "api_call list"

definition new_sync_job :: sync_job where
  "new_sync_job =
     \<lparr>added_to_owned = 0, skipped_already_owned = 0, created_new_books = 0,
      existing_owned_count = 0, errors = 0, error_details = [], percent = 0,
      status_message = ''Starting sync...'', percent_trace = [], api_trace = []\<rparr>"

text \<open>\<open>self.percent = p\<close>.\<close>

definition set_percent :: "int \<Rightarrow> sync_job \<Rightarrow> sync_job" where
  "set_percent p job = job\<lparr>percent := p, percent_trace := percent_trace job @ [p]\<rparr>"

text \<open>\<open>self.results['errors'] += 1\<close> followed by \<open>self.results['error_details'].append(d)\<close>.\<close>

definition count_error :: "string \<Rightarrow> sync_job \<Rightarrow> sync_job" where
  "count_error detail job =
     job\<lparr>errors := errors job + 1, error_details := error_details job @ [detail]\<rparr>"

definition log_call :: "api_call \<Rightarrow> sync_job \<Rightarrow> sync_job" where
  "log_call c job = job\<lparr>api_trace := api_trace job @ [c]\<rparr>"

text \<open>
  The Calibre metadata of a book, with the attributes \<open>run\<close> reads, and what the
  catalogue and the client answer while one book is handled: \<open>db.get_metadata\<close> and
  the four client methods \<open>run\<close> calls, each either raising or returning. In one run
  each of them is called at most once for a given book, so this is every behaviour
  the collaborators can show.
\<close>

record metadata =
  md_title :: "string option"
  md_authors :: "string list"
  md_identifiers :: "(string \<times> string) list"

record book_world =
  db_get_metadata :: "py_exception + metadata"
  api_search_books_by_isbn :: "string \<Rightarrow> py_exception + book_row list"
  api_search_books_by_title :: "string \<Rightarrow> py_exception + book_row list"
  api_create_book_on_hardcover ::
    "string \<Rightarrow> string list \<Rightarrow> metadata \<Rightarrow> py_exception + string option"
  api_add_book_to_owned :: "string \<Rightarrow> py_exception + bool"

text \<open>An entry of \<open>books_to_process\<close>.\<close>

record queued_book =
  q_calibre_id :: int
  q_metadata :: metadata
  q_title :: string
  q_authors :: "string list"
  q_isbn :: "string option"

subsection \<open>Step 2: the comparison loop\<close>

text \<open>
  \<open>int((i / total_books) * 20)\<close> is computed in floating point by the source. The
  quotient \<open>i / total_books\<close> is rounded correctly, so the result depends on the
  fraction only, and it is the integer quotient below: where \<open>20 * i / total_books\<close>
  is a whole number the rounded product is that number, and elsewhere it is further
  from a whole number than the rounding error for any list a run can hold. The same
  holds for the factor 80 of the processing loop.
\<close>

definition compare_progress :: "nat \<Rightarrow> nat \<Rightarrow> int" where
  "compare_progress i total_books = (int i * 20) div int total_books"

definition extract_title :: "metadata \<Rightarrow> string" where
  "extract_title md =
     (case md_title md of
        None \<Rightarrow> ''Unknown Title''
      | Some t \<Rightarrow> if t \<noteq> [] then t else ''Unknown Title'')"

definition extract_isbn :: "metadata \<Rightarrow> string option" where
  "extract_isbn md =
     (if md_identifiers md \<noteq> [] then map_of (md_identifiers md) ''isbn'' else None)"

text \<open>One iteration of the loop over \<open>enumerate(self.book_ids)\<close>.\<close>

definition compare_book ::
  "nat \<Rightarrow> nat \<Rightarrow> owned_dict \<Rightarrow> int \<times> book_world
     \<Rightarrow> sync_job \<times> (queued_book \<times> book_world) list
     \<Rightarrow> sync_job \<times> (queued_book \<times> book_world) list" where
  "compare_book total_books i owned_books b st =
     (case b of (book_id, w) \<Rightarrow>
      case st of (job0, books_to_process) \<Rightarrow>
        let job = set_percent (compare_progress i total_books) job0
        in case db_get_metadata w of
             Inl e \<Rightarrow>
               (count_error (''Failed to read book '' @ py_str_int book_id @ '': '' @ exc_str e) job,
                books_to_process)
           | Inr md \<Rightarrow>
               (let title = extract_title md;
                    authors = md_authors md;
                    isbn = extract_isbn md
                in if truthy (is_book_already_owned title authors isbn owned_books) then
                     (job\<lparr>skipped_already_owned := skipped_already_owned job + 1\<rparr>,
                      books_to_process)
                   else
                     (job,
                      books_to_process @
                        [(\<lparr>q_calibre_id = book_id, q_metadata = md, q_title = title,
                           q_authors = authors, q_isbn = isbn\<rparr>, w)])))"

fun compare_loop ::
  "nat \<Rightarrow> nat \<Rightarrow> owned_dict \<Rightarrow> (int \<times> book_world) list
     \<Rightarrow> sync_job \<times> (queued_book \<times> book_world) list
     \<Rightarrow> sync_job \<times> (queued_book \<times> book_world) list" where
  "compare_loop total_books i owned_books [] st = st"
| "compare_loop total_books i owned_books (b # bs) st =
     compare_loop total_books (Suc i) owned_books bs (compare_book total_books i owned_books b st)"

subsection \<open>Step 3: the processing loop\<close>

definition process_progress :: "nat \<Rightarrow> nat \<Rightarrow> int" where
  "process_progress i n = (if n \<noteq> 0 then 20 + (int i * 80) div int n else 100)"

text \<open>
  The body of the \<open>try\<close> of one iteration ends with the job, the snapshot, and the
  exception that escaped it, if any. Its last part: \<open>if hardcover_book_id:\<close> and the
  call of \<open>add_book_to_owned\<close>.
\<close>

text \<open>The entry \<open>run\<close> puts into \<open>owned_books\<close> after a successful \<open>add_book_to_owned\<close>.\<close>

definition synthesized_entry :: "queued_book \<Rightarrow> string \<Rightarrow> book_info" where
  "synthesized_entry q hardcover_book_id =
     \<lparr>info_id = hardcover_book_id, info_title = strip (lower (q_title q)),
      info_authors = q_authors q,
      info_isbns = (case q_isbn q of
                      None \<Rightarrow> {}
                    | Some isbn \<Rightarrow> if isbn \<noteq> [] then {isbn} else {}),
      info_slug = Some []\<rparr>"

definition add_to_owned_part ::
  "book_world \<Rightarrow> queued_book \<Rightarrow> string \<Rightarrow> sync_job \<Rightarrow> owned_dict
     \<Rightarrow> sync_job \<times> owned_dict \<times> py_exception option" where
  "add_to_owned_part w q hardcover_book_id job owned_books =
     (if hardcover_book_id \<noteq> [] then
        (let job1 = log_call (AddToOwned hardcover_book_id) job
         in case api_add_book_to_owned w hardcover_book_id of
              Inl e \<Rightarrow> (job1, owned_books, Some e)
            | Inr success \<Rightarrow>
                if success then
                  (job1\<lparr>added_to_owned := added_to_owned job1 + 1\<rparr>,
                   dict_set hardcover_book_id (synthesized_entry q hardcover_book_id)
                     owned_books,
                   None)
                else
                  (count_error (''Failed to add '' @ quoted (q_title q) @ '' to owned list'') job1,
                   owned_books, None))
      else (job, owned_books, None))"

text \<open>The \<open>else\<close> branch of \<open>if search_results:\<close>, with its own \<open>try\<close>.\<close>

definition create_part ::
  "book_world \<Rightarrow> queued_book \<Rightarrow> sync_job \<Rightarrow> owned_dict
     \<Rightarrow> sync_job \<times> owned_dict \<times> py_exception option" where
  "create_part w q job owned_books =
     (let job1 = log_call (CreateBook (q_title q)) job
      in case api_create_book_on_hardcover w (q_title q) (q_authors q) (q_metadata q) of
           Inl e \<Rightarrow>
             (count_error (''Error creating '' @ quoted (q_title q) @ '': '' @ exc_str e) job1,
              owned_books, None)
         | Inr hardcover_book_id \<Rightarrow>
             (case hardcover_book_id of
                None \<Rightarrow>
                  (count_error (''Failed to create book: '' @ q_title q) job1, owned_books, None)
              | Some hid \<Rightarrow>
                  if hid \<noteq> [] then
                    add_to_owned_part w q hid
                      (job1\<lparr>created_new_books := created_new_books job1 + 1\<rparr>) owned_books
                  else
                    (count_error (''Failed to create book: '' @ q_title q) job1,
                     owned_books, None)))"

text \<open>\<open>if search_results:\<close> takes the first candidate, else the book is created.\<close>

definition resolve_part ::
  "book_world \<Rightarrow> queued_book \<Rightarrow> book_row list \<Rightarrow> sync_job \<Rightarrow> owned_dict
     \<Rightarrow> sync_job \<times> owned_dict \<times> py_exception option" where
  "resolve_part w q search_results job owned_books =
     (case search_results of
        hardcover_book # _ \<Rightarrow>
          add_to_owned_part w q (py_str_int (row_id hardcover_book)) job owned_books
      | [] \<Rightarrow> create_part w q job owned_books)"

text \<open>\<open>if not search_results:\<close> searches by title.\<close>

definition title_search_part ::
  "book_world \<Rightarrow> queued_book \<Rightarrow> book_row list \<Rightarrow> sync_job \<Rightarrow> owned_dict
     \<Rightarrow> sync_job \<times> owned_dict \<times> py_exception option" where
  "title_search_part w q search_results job owned_books =
     (if search_results = [] then
        (let job1 = log_call (SearchByTitle (q_title q)) job
         in case api_search_books_by_title w (q_title q) of
              Inl e \<Rightarrow> (job1, owned_books, Some e)
            | Inr found \<Rightarrow> resolve_part w q found job1 owned_books)
      else resolve_part w q search_results job owned_books)"

definition process_body ::
  "nat \<Rightarrow> nat \<Rightarrow> queued_book \<times> book_world \<Rightarrow> sync_job \<Rightarrow> owned_dict
     \<Rightarrow> sync_job \<times> owned_dict \<times> py_exception option" where
  "process_body n i qw job0 owned_books =
     (case qw of (q, w) \<Rightarrow>
        let job = set_percent (process_progress i n) job0
        in case q_isbn q of
             None \<Rightarrow> title_search_part w q [] job owned_books
           | Some isbn \<Rightarrow>
               if isbn \<noteq> [] then
                 (let job1 = log_call (SearchByIsbn isbn) job
                  in case api_search_books_by_isbn w isbn of
                       Inl e \<Rightarrow> (job1, owned_books, Some e)
                     | Inr found \<Rightarrow> title_search_part w q found job1 owned_books)
               else title_search_part w q [] job owned_books)"

text \<open>One iteration: the body, and the handler of the exception that escaped it.\<close>

definition process_book ::
  "nat \<Rightarrow> nat \<Rightarrow> queued_book \<times> book_world \<Rightarrow> sync_job \<times> owned_dict
     \<Rightarrow> sync_job \<times> owned_dict" where
  "process_book n i qw st =
     (case st of (job0, owned_books0) \<Rightarrow>
        case process_body n i qw job0 owned_books0 of
          (job, owned_books, raised) \<Rightarrow>
            (case raised of
               None \<Rightarrow> (job, owned_books)
             | Some e \<Rightarrow>
                 (count_error
                    (''Error processing '' @ quoted (q_title (fst qw)) @ '': '' @ exc_str e) job,
                  owned_books)))"

fun process_loop ::
  "nat \<Rightarrow> nat \<Rightarrow> (queued_book \<times> book_world) list \<Rightarrow> sync_job \<times> owned_dict
     \<Rightarrow> sync_job \<times> owned_dict" where
  "process_loop n i [] st = st"
| "process_loop n i (qw # qws) st = process_loop n (Suc i) qws (process_book n i qw st)"

subsection \<open>SyncJob.run\<close>

text \<open>
  \<open>fetch\<close> is what \<open>self.api.get_owned_books_with_titles()\<close> does, \<open>books\<close> are
  \<open>self.book_ids\<close>, each with what the collaborators answer for it. The result is the
  job and the local \<open>owned_books\<close> when \<open>run\<close> returns.
\<close>

definition fetch_snapshot :: "py_exception + owned_dict \<Rightarrow> sync_job \<Rightarrow> sync_job \<times> owned_dict" where
  "fetch_snapshot fetch job =
     (case fetch of
        Inr owned_books \<Rightarrow> (job\<lparr>existing_owned_count := int (length owned_books)\<rparr>, owned_books)
      | Inl e \<Rightarrow>
          (job\<lparr>error_details :=
                  error_details job @ [''Failed to get owned books: '' @ exc_str e]\<rparr>, []))"

definition run ::
  "py_exception + owned_dict \<Rightarrow> (int \<times> book_world) list \<Rightarrow> sync_job \<Rightarrow> sync_job \<times> owned_dict" where
  "run fetch books job0 =
     (case fetch_snapshot fetch
             (job0\<lparr>status_message := ''Fetching your current Hardcover library...''\<rparr>) of
        (job1, owned_books) \<Rightarrow>
          (case compare_loop (length books) 0 owned_books books
                  (job1\<lparr>status_message := ''Comparing with your Calibre library...''\<rparr>, []) of
             (job2, books_to_process) \<Rightarrow>
               (case process_loop (length books_to_process) 0 books_to_process
                       (job2\<lparr>status_message := ''Processing new books...''\<rparr>, owned_books) of
                  (job3, owned_books') \<Rightarrow>
                    ((set_percent 100 job3)\<lparr>status_message := ''Sync completed!''\<rparr>,
                     owned_books'))))"

text \<open>The run of a job whose client is a \<open>HardcoverAPI\<close>: the snapshot is what
  \<open>get_owned_books_with_titles\<close> makes of the answer to its query.\<close>

definition run_with_hardcover ::
  "(py_exception + user_book_row list json_field option) \<Rightarrow> (int \<times> book_world) list \<Rightarrow> sync_job
     \<Rightarrow> sync_job \<times> owned_dict" where
  "run_with_hardcover remote books job0 =
     run (Inr (get_owned_books_with_titles remote)) books job0"

section \<open>Example data\<close>

text \<open>A snapshot of two owned books; only the second has an isbn.\<close>

definition dune_entry :: book_info where
  "dune_entry =
     \<lparr>info_id = ''1'', info_title = ''dune'', info_authors = [],
      info_isbns = {}, info_slug = Some ''dune''\<rparr>"

definition emma_entry :: book_info where
  "emma_entry =
     \<lparr>info_id = ''2'', info_title = ''emma'', info_authors = [''Jane Austen''],
      info_isbns = {''9780441013593''}, info_slug = Some ''emma''\<rparr>"

definition two_books :: owned_dict where
  "two_books = [(''1'', dune_entry), (''2'', emma_entry)]"

text \<open>A book the catalogue cannot read, and a remote side that finds and does nothing.\<close>

definition unreadable_world :: book_world where
  "unreadable_world =
     \<lparr>db_get_metadata = Inl (Exception ''no such book''),
      api_search_books_by_isbn = (\<lambda>isbn. Inr []),
      api_search_books_by_title = (\<lambda>title. Inr []),
      api_create_book_on_hardcover = (\<lambda>title authors md. Inr None),
      api_add_book_to_owned = (\<lambda>book_id. Inr False)\<rparr>"

text \<open>Dune, as the catalogue holds it, with its isbn written with hyphens.\<close>

definition dune_metadata :: metadata where
  "dune_metadata =
     \<lparr>md_title = Some ''Dune'', md_authors = [''Frank Herbert''],
      md_identifiers = [(''isbn'', ''978-0-441-01359-3'')]\<rparr>"

definition dune_row :: book_row where
  "dune_row = \<lparr>row_id = 42, row_title = Some ''Dune'', row_slug = Some ''dune'',
                matching_edition = None\<rparr>"

text \<open>The isbn search finds Dune as book 42 and marking it owned succeeds.\<close>

definition dune_world :: book_world where
  "dune_world =
     unreadable_world\<lparr>db_get_metadata := Inr dune_metadata,
       api_search_books_by_isbn := (\<lambda>isbn. Inr [dune_row]),
       api_add_book_to_owned := (\<lambda>book_id. Inr True)\<rparr>"

text \<open>The searches find nothing and the creation returns no identifier.\<close>

definition unknown_world :: book_world where
  "unknown_world = unreadable_world\<lparr>db_get_metadata := Inr dune_metadata\<rparr>"

text \<open>The isbn search raises.\<close>

definition broken_world :: book_world where
  "broken_world =
     dune_world\<lparr>api_search_books_by_isbn := (\<lambda>isbn. Inl (Exception ''boom''))\<rparr>"

text \<open>The isbn search finds nothing and the title search raises.\<close>

definition title_broken_world :: book_world where
  "title_broken_world =
     unknown_world\<lparr>api_search_books_by_title := (\<lambda>title. Inl (Exception ''bang''))\<rparr>"

text \<open>The isbn search finds Dune and marking it owned raises.\<close>

definition add_broken_world :: book_world where
  "add_broken_world =
     dune_world\<lparr>api_add_book_to_owned := (\<lambda>book_id. Inl (Exception ''crash''))\<rparr>"

text \<open>The searches find nothing and the creation raises.\<close>

definition create_broken_world :: book_world where
  "create_broken_world =
     unknown_world\<lparr>api_create_book_on_hardcover :=
       (\<lambda>title authors md. Inl (Exception ''denied''))\<rparr>"

text \<open>The searches find nothing, the book is created as 77 and marking it owned raises.\<close>

definition created_add_broken_world :: book_world where
  "created_add_broken_world =
     unknown_world\<lparr>api_create_book_on_hardcover := (\<lambda>title authors md. Inr (Some ''77'')),
       api_add_book_to_owned := (\<lambda>book_id. Inl (Exception ''crash''))\<rparr>"

text \<open>The isbn search finds Dune, marking it owned is refused.\<close>

definition refused_world :: book_world where
  "refused_world = dune_world\<lparr>api_add_book_to_owned := (\<lambda>book_id. Inr False)\<rparr>"

definition dune_queued :: queued_book where
  "dune_queued =
     \<lparr>q_calibre_id = 1, q_metadata = dune_metadata, q_title = ''Dune'',
      q_authors = [''Frank Herbert''], q_isbn = Some ''978-0-441-01359-3''\<rparr>"

text \<open>An owned book as the remote side returns it, its isbn written with hyphens.\<close>

definition remote_dune :: user_book_row where
  "remote_dune =
     \<lparr>ub_book_id = 7,
      ub_book = Some \<lparr>ob_id = 7, ob_title = Some ''Dune'', ob_slug = Some ''dune'',
                      ob_contributions = [\<lparr>contrib_author = Some \<lparr>author_name = Some ''Frank Herbert''\<rparr>\<rparr>],
                      ob_editions = [\<lparr>isbn_10 = None, isbn_13 = Some ''978-0-441-01359-3''\<rparr>]\<rparr>\<rparr>"

text \<open>An exchange that is answered at once with the body \<open>{}\<close>: no errors, no data.\<close>

definition instant_ok :: "unit http_exchange" where
  "instant_ok =
     \<lparr>latency = 0, http_result = Response \<lparr>body_errors = Absent, body_data = Absent\<rparr>\<rparr>"

text \<open>An exchange answered at once with the body \<open>{"data": {"books": null}}\<close>.\<close>

definition null_books :: "book_row list http_exchange" where
  "null_books =
     \<lparr>latency = 0, http_result = Response \<lparr>body_errors = Absent, body_data = Value Null\<rparr>\<rparr>"

section \<open>Unfolding the definitions on concrete inputs\<close>

lemmas matcher_defs = is_book_already_owned_def clean_isbn_of_def remove_chr_def isbn_hit_def
  title_hit_def titles_match_def authors_overlap_def lower_def strip_def isupper_def isspace_def

lemmas run_defs = run_def fetch_snapshot_def compare_book_def process_book_def process_body_def
  title_search_part_def resolve_part_def create_part_def add_to_owned_part_def
  synthesized_entry_def
  set_percent_def count_error_def log_call_def compare_progress_def process_progress_def
  extract_title_def extract_isbn_def truthy_def new_sync_job_def quoted_def py_str_int_def
  py_str_nat.simps Let_def

lemmas example_defs = dune_entry_def emma_entry_def two_books_def unreadable_world_def
  dune_metadata_def dune_row_def dune_world_def unknown_world_def broken_world_def
  refused_world_def dune_queued_def remote_dune_def instant_ok_def title_broken_world_def
  add_broken_world_def create_broken_world_def created_add_broken_world_def null_books_def

section \<open>The matcher\<close>

lemma owned_loop_skip:
  "\<forall>(k, e) \<in> set pre. \<not> isbn_hit ci e \<and> \<not> title_hit ct au e \<Longrightarrow>
   owned_loop ct au ci (pre @ rest) = owned_loop ct au ci rest"
  by (induction pre) auto

lemma owned_loop_key:
  "owned_loop ct au ci d = Some k \<Longrightarrow> k \<in> fst ` set d"
  by (induction d) (auto split: if_splits)

lemma owned_loop_found:
  "(k, e) \<in> set d \<Longrightarrow> isbn_hit ci e \<or> title_hit ct au e \<Longrightarrow>
   \<exists>k'. owned_loop ct au ci d = Some k'"
  by (induction d) auto

lemma authors_overlap_iff:
  "authors_overlap authors theirs \<longleftrightarrow>
     (\<exists>ca \<in> set authors. \<exists>ha \<in> set theirs.
        str_in (strip (lower ca)) (strip (lower ha)) \<or> str_in (strip (lower ha)) (strip (lower ca)))"
  by (auto simp: authors_overlap_def list_ex_iff)

text \<open>
  C1, as the claim states it, fails: the loop tests the isbn rule and the title rule
  entry by entry, so an entry that comes earlier in the snapshot and matches by title
  is returned before a later entry that holds the isbn. Here the isbn of the candidate
  is in the isbn set of entry 2, and the result is the id of entry 1.
\<close>

theorem isbn_rule_counterexample:
  "clean_isbn_of (Some ''978-0441013593'') = Some ''9780441013593''
   \<and> (''2'', emma_entry) \<in> set two_books
   \<and> ''9780441013593'' \<in> info_isbns emma_entry
   \<and> is_book_already_owned ''Dune'' [] (Some ''978-0441013593'') two_books = Some ''1''
   \<and> is_book_already_owned ''Dune'' [] (Some ''978-0441013593'') two_books \<noteq> Some ''2''"
  by (simp add: example_defs matcher_defs)

text \<open>
  C1, amended: if the isbn of the book, with hyphens and spaces removed, is not empty
  and is in the isbn set of some entry of the snapshot, then \<open>is_book_already_owned\<close>
  returns the id of an entry of the snapshot (never \<open>None\<close>), and it returns the id of
  that entry whenever no entry before it in the iteration order matches the book by
  isbn or by the title and author rule.
\<close>

theorem isbn_match_returns_owned:
  assumes "clean_isbn_of isbn = Some ci" and "ci \<noteq> []"
    and "owned_books = pre @ (book_id, info) # post" and "ci \<in> info_isbns info"
  shows "(\<exists>k. is_book_already_owned title authors isbn owned_books = Some k
              \<and> k \<in> fst ` set owned_books)
       \<and> ((\<forall>(k, e) \<in> set pre. \<not> isbn_hit (Some ci) e
                                  \<and> \<not> title_hit (strip (lower title)) authors e)
            \<longrightarrow> is_book_already_owned title authors isbn owned_books = Some book_id)"
proof -
  let ?ct = "strip (lower title)"
  have hit: "isbn_hit (Some ci) info"
    using assms(2,4) by (auto simp: isbn_hit_def)
  have mem: "(book_id, info) \<in> set owned_books"
    using assms(3) by simp
  obtain k where k: "owned_loop ?ct authors (Some ci) owned_books = Some k"
    using owned_loop_found [OF mem, of "Some ci" ?ct authors] hit by blast
  have first: "\<exists>k. is_book_already_owned title authors isbn owned_books = Some k
              \<and> k \<in> fst ` set owned_books"
    using k owned_loop_key [OF k] by (simp add: is_book_already_owned_def assms(1))
  have second: "is_book_already_owned title authors isbn owned_books = Some book_id"
    if "\<forall>(k, e) \<in> set pre. \<not> isbn_hit (Some ci) e \<and> \<not> title_hit ?ct authors e"
    using owned_loop_skip [OF that] hit
    by (simp add: is_book_already_owned_def assms(1,3))
  show ?thesis using first second by blast
qed

theorem isbn_match_returns_owned_witness:
  "clean_isbn_of (Some ''978-0441013593'') = Some ''9780441013593''
   \<and> two_books = [(''1'', dune_entry)] @ (''2'', emma_entry) # []
   \<and> ''9780441013593'' \<in> info_isbns emma_entry
   \<and> is_book_already_owned ''Persuasion'' [''Jane Austen''] (Some ''978-0441013593'') two_books
       = Some ''2''"
  using isbn_match_returns_owned [of "Some ''978-0441013593''" "''9780441013593''" two_books
          "[(''1'', dune_entry)]" "''2''" emma_entry "[]" "''Persuasion''" "[''Jane Austen'']"]
  by (simp add: example_defs matcher_defs)

text \<open>
  C7, as the claim states it, fails in two places. The title rule is applied only when
  both normalized titles are non-empty: a blank candidate title is contained in every
  entry title and still matches nothing. And an entry whose title matches and whose
  authors are disjoint from the candidate's is returned all the same when it holds the
  candidate's isbn.
\<close>

theorem title_rule_counterexample:
  "titles_match (strip (lower ''  '')) (info_title dune_entry)
   \<and> info_authors dune_entry = []
   \<and> is_book_already_owned ''  '' [] None [(''1'', dune_entry)] = None
   \<and> titles_match (strip (lower ''Emma'')) (info_title emma_entry)
   \<and> \<not> authors_overlap [''Frank Herbert''] (info_authors emma_entry)
   \<and> is_book_already_owned ''Emma'' [''Frank Herbert''] (Some ''9780441013593'')
        [(''2'', emma_entry)] = Some ''2''"
  by (simp add: example_defs matcher_defs)

text \<open>
  C7, amended: let checking reach an entry (no earlier entry matched) whose normalized
  title and the candidate's normalized title are both non-empty and match (equal, or
  one contains the other). If the candidate or the entry has no author, the entry's id
  is returned on the title alone. If both have at least one author, no pair of
  lowercased, trimmed author names has one containing the other, and the entry does
  not hold the candidate's isbn, the entry is passed over and the result is that of
  the remaining entries.
\<close>

theorem title_match_author_rule:
  assumes reach: "\<forall>(k, e) \<in> set pre. \<not> isbn_hit (clean_isbn_of isbn) e
                      \<and> \<not> title_hit (strip (lower title)) authors e"
    and nonempty: "strip (lower title) \<noteq> []" "info_title info \<noteq> []"
    and tm: "titles_match (strip (lower title)) (info_title info)"
  shows "(authors = [] \<or> info_authors info = [] \<longrightarrow>
            is_book_already_owned title authors isbn (pre @ (book_id, info) # rest) = Some book_id)
       \<and> (authors \<noteq> [] \<and> info_authors info \<noteq> [] \<and> \<not> isbn_hit (clean_isbn_of isbn) info
            \<and> (\<forall>ca \<in> set authors. \<forall>ha \<in> set (info_authors info).
                   \<not> str_in (strip (lower ca)) (strip (lower ha))
                 \<and> \<not> str_in (strip (lower ha)) (strip (lower ca))) \<longrightarrow>
            is_book_already_owned title authors isbn (pre @ (book_id, info) # rest)
              = is_book_already_owned title authors isbn rest)"
proof -
  have skip: "is_book_already_owned title authors isbn (pre @ (book_id, info) # rest)
      = owned_loop (strip (lower title)) authors (clean_isbn_of isbn) ((book_id, info) # rest)"
    using owned_loop_skip [OF reach] by (simp add: is_book_already_owned_def)
  have a: "title_hit (strip (lower title)) authors info"
    if "authors = [] \<or> info_authors info = []"
    using that nonempty tm by (auto simp: title_hit_def)
  have b: "\<not> title_hit (strip (lower title)) authors info"
    if "authors \<noteq> []" "info_authors info \<noteq> []"
       "\<forall>ca \<in> set authors. \<forall>ha \<in> set (info_authors info).
                   \<not> str_in (strip (lower ca)) (strip (lower ha))
                 \<and> \<not> str_in (strip (lower ha)) (strip (lower ca))"
    using that by (auto simp: title_hit_def authors_overlap_iff)
  show ?thesis
    using skip a b by (auto simp: is_book_already_owned_def)
qed

theorem title_match_author_rule_witness:
  "is_book_already_owned ''Dune Messiah'' [''Frank Herbert''] None two_books = Some ''1''
   \<and> is_book_already_owned ''Emma'' [''Frank Herbert''] None
        [(''2'', emma_entry), (''1'', dune_entry)]
       = is_book_already_owned ''Emma'' [''Frank Herbert''] None [(''1'', dune_entry)]"
  using title_match_author_rule [of "[]" None "''Dune Messiah''" "[''Frank Herbert'']" dune_entry
          "''1''" "[(''2'', emma_entry)]"]
    title_match_author_rule [of "[]" None "''Emma''" "[''Frank Herbert'']" emma_entry
          "''2''" "[(''1'', dune_entry)]"]
  by (simp add: example_defs matcher_defs)

section \<open>The client\<close>

text \<open>
  C4 does not hold of the code for \<open>search_books_by_title\<close>: when the answer holds
  \<open>null\<close> under \<open>books\<close>, \<open>data.get('books', [])\<close> returns \<open>None\<close>, and so does
  the method, where the claim and the annotation \<open>List[Dict]\<close> promise an empty
  sequence; \<open>search_books_by_isbn\<close> returns \<open>[]\<close> for a \<open>null\<close> under
  \<open>editions\<close>. The first conjuncts run the code at that answer. The others show what
  the claim says in every other case: a raising remote call, \<open>data\<close> being \<open>None\<close>,
  a missing key and an empty list all give the empty list, in both methods.
\<close>

theorem title_search_returns_none_for_null:
  "snd (snd (run_query api now null_books)) = Inr (Some Null)
   \<and> search_books_by_title (\<lambda>v. snd (snd (run_query api now null_books))) ''Dune'' = None
   \<and> search_books_by_title (\<lambda>v. snd (snd (run_query api now null_books))) ''Dune'' \<noteq> Some []
   \<and> search_books_by_isbn (\<lambda>v. Inr (Some Null)) isbn = []
   \<and> search_books_by_title (\<lambda>v. Inl e) title = Some []
   \<and> search_books_by_title (\<lambda>v. Inr None) title = Some []
   \<and> search_books_by_title (\<lambda>v. Inr (Some Absent)) title = Some []
   \<and> search_books_by_title (\<lambda>v. Inr (Some (Value []))) title = Some []
   \<and> search_books_by_isbn (\<lambda>v. Inl e) isbn = []
   \<and> search_books_by_isbn (\<lambda>v. Inr None) isbn = []
   \<and> search_books_by_isbn (\<lambda>v. Inr (Some Absent)) isbn = []
   \<and> search_books_by_isbn (\<lambda>v. Inr (Some (Value []))) isbn = []"
  by (simp add: run_query_def returned_data_def null_books_def search_books_by_title_def
        search_books_by_isbn_def Let_def)

text \<open>
  C2 does not hold of the code: \<open>_throttle\<close> never reads \<open>_rate_limit_delay\<close>; the
  spacing it enforces is \<open>60 / _requests_per_minute\<close>, one second. For a client
  configured with a delay of 2 seconds, two calls that are answered at once are sent
  at 1000 and 1001: the two calls take 1 second, less than (2 - 1) times the delay.
\<close>

theorem throttle_ignores_rate_limit_delay:
  "throttle (api\<lparr>rate_limit_delay := d\<rparr>) now = throttle api now
   \<and> rate_limit_delay (new_hardcover_api tok 2) = 2
   \<and> run_queries (new_hardcover_api tok 2) 1000 [instant_ok, instant_ok]
       = ((new_hardcover_api tok 2)\<lparr>last_request := 1001\<rparr>, 1001, [1000, 1001])
   \<and> (1001 :: real) - 1000 < (2 - 1) * rate_limit_delay (new_hardcover_api tok 2)"
  by (simp add: throttle_def run_query_def new_hardcover_api_def instant_ok_def Let_def)

section \<open>The run\<close>

text \<open>
  C5 does not hold of the code: \<open>get_owned_books_with_titles\<close> catches the failure of
  its remote call and returns the empty dictionary, so \<open>run\<close> sees a successful fetch
  of an empty library and its handler, which would append the description, is never
  entered. The run does continue with the empty snapshot. The last conjunct shows the
  handler at work for a client whose method does raise.
\<close>

theorem failed_fetch_leaves_no_detail:
  "get_owned_books_with_titles (Inl e) = []
   \<and> run_with_hardcover (Inl e) books job0 = run (Inr []) books job0
   \<and> error_details (fst (run_with_hardcover
        (Inl (Exception ''HTTP 401: Unauthorized - Invalid API token'')) [] new_sync_job)) = []
   \<and> error_details (fst (run (Inl (Exception ''HTTP 401: Unauthorized - Invalid API token''))
        [] new_sync_job))
       = [''Failed to get owned books: HTTP 401: Unauthorized - Invalid API token'']"
  by (simp add: run_with_hardcover_def get_owned_books_with_titles_def run_defs)

text \<open>
  C6 does not hold of the code: the isbns of a snapshot entry are stored as they come.
  An entry built from the remote fetch keeps the hyphens the remote side returned, and
  a book with that very isbn is then not matched by isbn; an entry synthesized after a
  successful \<open>add_book_to_owned\<close> keeps the hyphens of the catalogue's isbn.
\<close>

theorem snapshot_keeps_raw_isbns:
  "get_owned_books_with_titles (Inr (Some (Value [remote_dune])))
     = [(''7'', \<lparr>info_id = ''7'', info_title = ''dune'', info_authors = [''Frank Herbert''],
                 info_isbns = {''978-0-441-01359-3''}, info_slug = Some ''dune''\<rparr>)]
   \<and> is_book_already_owned ''Arrakis'' [] (Some ''978-0-441-01359-3'')
        (get_owned_books_with_titles (Inr (Some (Value [remote_dune])))) = None
   \<and> snd (run (Inr []) [(1, dune_world)] new_sync_job)
     = [(''42'', \<lparr>info_id = ''42'', info_title = ''dune'', info_authors = [''Frank Herbert''],
                  info_isbns = {''978-0-441-01359-3''}, info_slug = Some []\<rparr>)]"
  by (simp add: get_owned_books_with_titles_def run_defs example_defs matcher_defs)

section \<open>The loops of the run\<close>

lemmas step_defs = set_percent_def count_error_def log_call_def Let_def

lemma compare_loop_append:
  "compare_loop tb i owned (xs @ ys) st
     = compare_loop tb (i + length xs) owned ys (compare_loop tb i owned xs st)"
  by (induction xs arbitrary: i st) auto

lemma process_loop_append:
  "process_loop n i (xs @ ys) st = process_loop n (i + length xs) ys (process_loop n i xs st)"
  by (induction xs arbitrary: i st) auto

lemma add_to_owned_part_trace [simp]:
  "percent_trace (fst (add_to_owned_part w q hid job owned)) = percent_trace job"
  by (auto simp: add_to_owned_part_def step_defs split: sum.splits)

lemma create_part_trace [simp]:
  "percent_trace (fst (create_part w q job owned)) = percent_trace job"
  by (auto simp: create_part_def step_defs split: sum.splits option.splits)

lemma resolve_part_trace [simp]:
  "percent_trace (fst (resolve_part w q found job owned)) = percent_trace job"
  by (auto simp: resolve_part_def split: list.splits)

lemma title_search_part_trace [simp]:
  "percent_trace (fst (title_search_part w q found job owned)) = percent_trace job"
  by (auto simp: title_search_part_def step_defs split: sum.splits)

lemma process_body_trace:
  "percent_trace (fst (process_body n i qw job owned)) = percent_trace job @ [process_progress i n]"
  by (auto simp: process_body_def step_defs split: sum.splits option.splits prod.splits)

lemma process_book_trace:
  "percent_trace (fst (process_book n i qw st)) = percent_trace (fst st) @ [process_progress i n]"
  using process_body_trace [of n i qw "fst st" "snd st"]
  by (auto simp: process_book_def count_error_def split: prod.splits option.splits)

lemma process_loop_trace:
  "percent_trace (fst (process_loop n i qws st))
     = percent_trace (fst st) @ map (\<lambda>k. process_progress k n) [i ..< i + length qws]"
proof (induction qws arbitrary: i st)
  case Nil
  then show ?case by simp
next
  case (Cons qw qws)
  have "[i ..< i + length (qw # qws)] = i # [Suc i ..< Suc i + length qws]"
    using upt_conv_Cons [of i "i + Suc (length qws)"] by simp
  then show ?case
    by (simp add: Cons.IH process_book_trace)
qed

lemma compare_book_trace:
  "percent_trace (fst (compare_book tb i owned b st))
     = percent_trace (fst st) @ [compare_progress i tb]"
  by (auto simp: compare_book_def step_defs split: prod.splits sum.splits)

lemma compare_loop_trace:
  "percent_trace (fst (compare_loop tb i owned bs st))
     = percent_trace (fst st) @ map (\<lambda>k. compare_progress k tb) [i ..< i + length bs]"
proof (induction bs arbitrary: i st)
  case Nil
  then show ?case by simp
next
  case (Cons b bs)
  have "[i ..< i + length (b # bs)] = i # [Suc i ..< Suc i + length bs]"
    using upt_conv_Cons [of i "i + Suc (length bs)"] by simp
  then show ?case
    by (simp add: Cons.IH compare_book_trace)
qed

lemma compare_book_queue:
  "length (snd (compare_book tb i owned b st)) \<le> Suc (length (snd st))"
  by (auto simp: compare_book_def step_defs split: prod.splits sum.splits)

lemma compare_loop_queue:
  "length (snd (compare_loop tb i owned bs st)) \<le> length (snd st) + length bs"
proof (induction bs arbitrary: i st)
  case Nil
  then show ?case by simp
next
  case (Cons b bs)
  show ?case
    using Cons.IH [of "Suc i" "compare_book tb i owned b st"]
      compare_book_queue [of tb i owned b st]
    by simp
qed

lemma compare_progress_nat: "compare_progress k tb = int (k * 20 div tb)"
  by (simp add: compare_progress_def zdiv_int)

lemma process_progress_nat:
  "process_progress k n = (if n \<noteq> 0 then 20 + int (k * 80 div n) else 100)"
  by (simp add: process_progress_def zdiv_int)

lemma compare_progress_bounds:
  "k < tb \<Longrightarrow> 0 \<le> compare_progress k tb \<and> compare_progress k tb < 20"
  by (simp add: compare_progress_nat less_mult_imp_div_less)

lemma compare_progress_mono:
  "j \<le> k \<Longrightarrow> compare_progress j tb \<le> compare_progress k tb"
  by (simp add: compare_progress_nat div_le_mono)

lemma process_progress_bounds:
  "k < n \<Longrightarrow> 20 \<le> process_progress k n \<and> process_progress k n < 100"
  using less_mult_imp_div_less [of "k * 80" 80 n]
  by (simp add: process_progress_nat)

lemma process_progress_mono:
  "j \<le> k \<Longrightarrow> process_progress j n \<le> process_progress k n"
  by (simp add: process_progress_nat div_le_mono)

lemma sorted_map_upt:
  "(\<And>j k. j \<le> k \<Longrightarrow> f j \<le> f k) \<Longrightarrow> sorted (map f [a ..< b])"
  by (simp add: sorted_iff_nth_mono)

lemmas body_defs = process_body_def title_search_part_def resolve_part_def create_part_def
  add_to_owned_part_def set_percent_def count_error_def log_call_def Let_def

text \<open>What one pass through the body can do to the snapshot and to the count of added books.\<close>

lemma process_body_owned:
  assumes "process_body n i (q, w) job owned = (job', owned', raised)"
  shows "\<exists>calls. api_trace job' = api_trace job @ calls
           \<and> ((owned' = owned \<and> added_to_owned job' = added_to_owned job
                 \<and> (\<forall>hid. AddToOwned hid \<in> set calls \<longrightarrow> api_add_book_to_owned w hid \<noteq> Inr True))
              \<or> (\<exists>hid. AddToOwned hid \<in> set calls \<and> api_add_book_to_owned w hid = Inr True
                    \<and> owned' = dict_set hid (synthesized_entry q hid) owned
                    \<and> added_to_owned job' = added_to_owned job + 1 \<and> raised = None))"
  using assms
  by (auto simp: body_defs split: sum.splits option.splits list.splits if_splits)

lemma process_body_raised:
  assumes "process_body n i (q, w) job owned = (job', owned', Some e)"
  shows "errors job' = errors job \<and> error_details job' = error_details job
       \<and> added_to_owned job' = added_to_owned job
       \<and> skipped_already_owned job' = skipped_already_owned job
       \<and> existing_owned_count job' = existing_owned_count job \<and> owned' = owned"
  using assms
  by (auto simp: body_defs split: sum.splits option.splits list.splits if_splits)

lemma str_in_sublist: "str_in a b \<longleftrightarrow> sublist a b"
  by (induction b) (auto simp: sublist_Cons_right)

lemma str_in_middle: "str_in t (pre @ t @ post)"
  by (simp add: str_in_sublist sublist_appendI)

lemma str_in_quoted: "str_in t (pre @ quoted t @ post)"
  using str_in_middle [of t "pre @ [CHR 0x27]" "[CHR 0x27] @ post"] by (simp add: quoted_def)

lemma create_part_failed:
  assumes "(\<exists>e. api_create_book_on_hardcover w (q_title q) (q_authors q) (q_metadata q) = Inl e)
         \<or> (\<exists>rid. api_create_book_on_hardcover w (q_title q) (q_authors q) (q_metadata q) = Inr rid
                \<and> \<not> truthy rid)"
  shows "\<exists>d. str_in (q_title q) d
           \<and> create_part w q job owned
               = (count_error d (log_call (CreateBook (q_title q)) job), owned, None)"
proof -
  consider e where "api_create_book_on_hardcover w (q_title q) (q_authors q) (q_metadata q) = Inl e"
    | "api_create_book_on_hardcover w (q_title q) (q_authors q) (q_metadata q) = Inr None"
    | "api_create_book_on_hardcover w (q_title q) (q_authors q) (q_metadata q) = Inr (Some [])"
    using assms by (cases "api_create_book_on_hardcover w (q_title q) (q_authors q) (q_metadata q)")
                   (auto simp: truthy_def split: option.splits)
  then show ?thesis
  proof cases
    case 1
    have "str_in (q_title q) (''Error creating '' @ quoted (q_title q) @ '': '' @ exc_str e)"
      by (rule str_in_quoted)
    then show ?thesis
      using 1 by (intro exI [of _ "''Error creating '' @ quoted (q_title q) @ '': '' @ exc_str e"])
                 (simp add: create_part_def Let_def)
  next
    case 2
    have "str_in (q_title q) (''Failed to create book: '' @ q_title q)"
      using str_in_middle [of "q_title q" "''Failed to create book: ''" "[]"] by simp
    then show ?thesis
      using 2 by (intro exI [of _ "''Failed to create book: '' @ q_title q"])
                 (simp add: create_part_def Let_def)
  next
    case 3
    have "str_in (q_title q) (''Failed to create book: '' @ q_title q)"
      using str_in_middle [of "q_title q" "''Failed to create book: ''" "[]"] by simp
    then show ?thesis
      using 3 by (intro exI [of _ "''Failed to create book: '' @ q_title q"])
                 (simp add: create_part_def Let_def)
  qed
qed

text \<open>The calls made before the creation when no search finds a candidate.\<close>

lemma process_body_no_candidate:
  assumes "\<forall>isbn. q_isbn q = Some isbn \<and> isbn \<noteq> [] \<longrightarrow> api_search_books_by_isbn w isbn = Inr []"
    and "api_search_books_by_title w (q_title q) = Inr []"
  shows "\<exists>searches. (\<forall>hid. AddToOwned hid \<notin> set searches)
           \<and> process_body n i (q, w) job owned
               = create_part w q
                   ((set_percent (process_progress i n) job)
                      \<lparr>api_trace := api_trace job @ searches\<rparr>) owned"
proof (cases "truthy (q_isbn q)")
  case True
  then obtain isbn where isbn: "q_isbn q = Some isbn" "isbn \<noteq> []"
    by (auto simp: truthy_def split: option.splits)
  show ?thesis
    using isbn assms
    by (intro exI [of _ "[SearchByIsbn isbn, SearchByTitle (q_title q)]"])
       (simp add: process_body_def title_search_part_def resolve_part_def Let_def
          log_call_def set_percent_def)
next
  case False
  show ?thesis
    using False assms
    by (intro exI [of _ "[SearchByTitle (q_title q)]"])
       (auto simp: process_body_def title_search_part_def resolve_part_def Let_def
          log_call_def set_percent_def truthy_def split: option.splits)
qed

section \<open>Progress\<close>

lemma fetch_snapshot_trace:
  "percent_trace (fst (fetch_snapshot fetch job)) = percent_trace job"
  by (auto simp: fetch_snapshot_def split: sum.splits)

text \<open>
  C9: in a run, the values written to \<open>percent\<close> are, in this order, one value per
  book of the batch during the comparison, one value per queued book during the
  processing, and 100 at the end. The sequence never decreases, the comparison values
  lie between 0 and 20, the processing values between 20 and 100, and \<open>percent\<close> is
  100 when the run returns.
\<close>

theorem progress_never_decreases:
  fixes books :: "(int \<times> book_world) list"
  defines "comparing \<equiv> map (\<lambda>k. compare_progress k (length books)) [0 ..< length books]"
    and "processing m \<equiv> map (\<lambda>k. process_progress k m) [0 ..< m]"
  shows "\<exists>m \<le> length books.
           percent_trace (fst (run fetch books job0))
             = percent_trace job0 @ comparing @ processing m @ [100]
         \<and> sorted (comparing @ processing m @ [100])
         \<and> (\<forall>p \<in> set comparing. 0 \<le> p \<and> p \<le> 20)
         \<and> (\<forall>p \<in> set (processing m). 20 \<le> p \<and> p \<le> 100)
         \<and> percent (fst (run fetch books job0)) = 100"
proof -
  obtain job1 owned where fs:
    "fetch_snapshot fetch (job0\<lparr>status_message := ''Fetching your current Hardcover library...''\<rparr>)
       = (job1, owned)"
    by (cases "fetch_snapshot fetch
                 (job0\<lparr>status_message := ''Fetching your current Hardcover library...''\<rparr>)")
  obtain job2 queue where cl:
    "compare_loop (length books) 0 owned books
       (job1\<lparr>status_message := ''Comparing with your Calibre library...''\<rparr>, []) = (job2, queue)"
    by (cases "compare_loop (length books) 0 owned books
       (job1\<lparr>status_message := ''Comparing with your Calibre library...''\<rparr>, [])")
  obtain job3 owned' where pl:
    "process_loop (length queue) 0 queue
       (job2\<lparr>status_message := ''Processing new books...''\<rparr>, owned) = (job3, owned')"
    by (cases "process_loop (length queue) 0 queue
       (job2\<lparr>status_message := ''Processing new books...''\<rparr>, owned)")
  let ?m = "length queue"
  have t1: "percent_trace job1 = percent_trace job0"
    using fetch_snapshot_trace [of fetch
            "job0\<lparr>status_message := ''Fetching your current Hardcover library...''\<rparr>"]
    by (simp add: fs)
  have t2: "percent_trace job2 = percent_trace job1 @ comparing"
    using compare_loop_trace [of "length books" 0 owned books
            "(job1\<lparr>status_message := ''Comparing with your Calibre library...''\<rparr>, [])"]
    by (simp add: cl comparing_def)
  have t3: "percent_trace job3 = percent_trace job2 @ processing ?m"
    using process_loop_trace [of ?m 0 queue
            "(job2\<lparr>status_message := ''Processing new books...''\<rparr>, owned)"]
    by (simp add: pl processing_def)
  have m: "?m \<le> length books"
    using compare_loop_queue [of "length books" 0 owned books
            "(job1\<lparr>status_message := ''Comparing with your Calibre library...''\<rparr>, [])"]
    by (simp add: cl)
  have r: "run fetch books job0
             = ((set_percent 100 job3)\<lparr>status_message := ''Sync completed!''\<rparr>, owned')"
    by (simp add: run_def fs cl pl)
  have trace: "percent_trace (fst (run fetch books job0))
                 = percent_trace job0 @ comparing @ processing ?m @ [100]"
    by (simp add: r set_percent_def t1 t2 t3)
  have final: "percent (fst (run fetch books job0)) = 100"
    by (simp add: r set_percent_def)
  have cb: "\<forall>p \<in> set comparing. 0 \<le> p \<and> p < 20"
    using compare_progress_bounds by (auto simp: comparing_def)
  have pb: "\<forall>p \<in> set (processing ?m). 20 \<le> p \<and> p < 100"
    using process_progress_bounds by (auto simp: processing_def)
  have sc: "sorted comparing"
    unfolding comparing_def by (rule sorted_map_upt) (rule compare_progress_mono)
  have sp: "sorted (processing ?m)"
    unfolding processing_def by (rule sorted_map_upt) (rule process_progress_mono)
  have srt: "sorted (comparing @ processing ?m @ [100])"
    using sc sp cb pb by (fastforce simp: sorted_append)
  show ?thesis
    using m trace srt cb pb final by (intro exI [of _ ?m]) force
qed

theorem progress_never_decreases_witness:
  "percent_trace (fst (run (Inr []) [(1, dune_world), (2, unreadable_world), (3, refused_world)]
                         new_sync_job)) = [0, 6, 13, 20, 60, 100]
   \<and> sorted [0, 6, 13, 20, 60, 100 :: int]
   \<and> percent (fst (run (Inr []) [(1, dune_world), (2, unreadable_world), (3, refused_world)]
                      new_sync_job)) = 100"
  using progress_never_decreases [of "[(1, dune_world), (2, unreadable_world), (3, refused_world)]"
          "Inr []" new_sync_job]
  by (simp add: run_defs example_defs matcher_defs)

section \<open>Failures of single books\<close>

text \<open>
  C8: for a queued book whose searches find no candidate and whose creation fails
  (\<open>create_book_on_hardcover\<close> raises, or returns \<open>None\<close> or an empty identifier), the
  iteration adds one to \<open>errors\<close>, appends one detail that contains the title, leaves
  \<open>created_new_books\<close>, \<open>added_to_owned\<close> and the snapshot as they were, and calls
  \<open>create_book_on_hardcover\<close> but not \<open>add_book_to_owned\<close>.
\<close>

theorem create_failure_counted:
  assumes "\<forall>isbn. q_isbn q = Some isbn \<and> isbn \<noteq> [] \<longrightarrow> api_search_books_by_isbn w isbn = Inr []"
    and "api_search_books_by_title w (q_title q) = Inr []"
    and "(\<exists>e. api_create_book_on_hardcover w (q_title q) (q_authors q) (q_metadata q) = Inl e)
         \<or> (\<exists>rid. api_create_book_on_hardcover w (q_title q) (q_authors q) (q_metadata q) = Inr rid
                \<and> \<not> truthy rid)"
    and "process_book n i (q, w) (job, owned) = (job', owned')"
  shows "errors job' = errors job + 1
       \<and> (\<exists>d. error_details job' = error_details job @ [d] \<and> str_in (q_title q) d)
       \<and> created_new_books job' = created_new_books job
       \<and> added_to_owned job' = added_to_owned job
       \<and> owned' = owned
       \<and> (\<exists>calls. api_trace job' = api_trace job @ calls
              \<and> (\<forall>hid. AddToOwned hid \<notin> set calls) \<and> CreateBook (q_title q) \<in> set calls)"
proof -
  obtain searches where s: "\<forall>hid. AddToOwned hid \<notin> set searches"
    and body1: "process_body n i (q, w) job owned
               = create_part w q
                   ((set_percent (process_progress i n) job)
                      \<lparr>api_trace := api_trace job @ searches\<rparr>) owned"
    using process_body_no_candidate [OF assms(1,2)] by blast
  obtain d where d: "str_in (q_title q) d"
    and body2: "create_part w q
                   ((set_percent (process_progress i n) job)
                      \<lparr>api_trace := api_trace job @ searches\<rparr>) owned
               = (count_error d (log_call (CreateBook (q_title q))
                    ((set_percent (process_progress i n) job)
                      \<lparr>api_trace := api_trace job @ searches\<rparr>)), owned, None)"
    using create_part_failed [OF assms(3)] by blast
  have res: "job' = count_error d (log_call (CreateBook (q_title q))
                    ((set_percent (process_progress i n) job)
                      \<lparr>api_trace := api_trace job @ searches\<rparr>))" "owned' = owned"
    using assms(4) by (simp_all add: process_book_def body1 body2)
  have trace: "api_trace job' = api_trace job @ (searches @ [CreateBook (q_title q)])"
    by (simp add: res count_error_def log_call_def set_percent_def)
  have calls: "\<exists>calls. api_trace job' = api_trace job @ calls
              \<and> (\<forall>hid. AddToOwned hid \<notin> set calls) \<and> CreateBook (q_title q) \<in> set calls"
    using trace s by (intro exI [of _ "searches @ [CreateBook (q_title q)]"]) simp
  have details: "\<exists>d. error_details job' = error_details job @ [d] \<and> str_in (q_title q) d"
    using d by (intro exI [of _ d]) (simp add: res count_error_def log_call_def set_percent_def)
  show ?thesis
    using calls details
    by (simp add: res count_error_def log_call_def set_percent_def)
qed

theorem create_failure_counted_witness:
  "process_book 1 0 (dune_queued, unknown_world) (new_sync_job, two_books)
     = (new_sync_job\<lparr>errors := 1, error_details := [''Failed to create book: Dune''],
          percent := 20, percent_trace := [20],
          api_trace := [SearchByIsbn ''978-0-441-01359-3'', SearchByTitle ''Dune'',
                        CreateBook ''Dune'']\<rparr>, two_books)"
  using create_failure_counted [of dune_queued unknown_world 1 0 new_sync_job two_books
          "fst (process_book 1 0 (dune_queued, unknown_world) (new_sync_job, two_books))"
          "snd (process_book 1 0 (dune_queued, unknown_world) (new_sync_job, two_books))"]
  by (simp add: run_defs example_defs)

text \<open>
  C10: in the iteration for a queued book, if no call of \<open>add_book_to_owned\<close> made for
  it returns \<open>True\<close> (it returns \<open>False\<close>, raises, or is not made), the snapshot
  is left exactly as it was and \<open>added_to_owned\<close> is not incremented. The snapshot or
  the count change only when \<open>add_book_to_owned\<close> was called on the resolved id and
  returned \<open>True\<close>; the snapshot then gets the synthesized entry under that id and
  the count grows by one.
\<close>

theorem mark_owned_failure_keeps_snapshot:
  assumes "process_book n i (q, w) (job, owned) = (job', owned')"
  shows "\<exists>calls. api_trace job' = api_trace job @ calls
           \<and> ((\<forall>hid. AddToOwned hid \<in> set calls \<longrightarrow> api_add_book_to_owned w hid \<noteq> Inr True)
                \<longrightarrow> owned' = owned \<and> added_to_owned job' = added_to_owned job)
           \<and> (owned' \<noteq> owned \<or> added_to_owned job' \<noteq> added_to_owned job
                \<longrightarrow> (\<exists>hid. AddToOwned hid \<in> set calls \<and> api_add_book_to_owned w hid = Inr True
                       \<and> owned' = dict_set hid (synthesized_entry q hid) owned
                       \<and> added_to_owned job' = added_to_owned job + 1))"
proof -
  obtain job1 owned1 raised where body: "process_body n i (q, w) job owned = (job1, owned1, raised)"
    by (cases "process_body n i (q, w) job owned")
  have same: "owned' = owned1" "api_trace job' = api_trace job1"
    "added_to_owned job' = added_to_owned job1"
    using assms body by (auto simp: process_book_def count_error_def split: option.splits)
  from process_body_owned [OF body] obtain calls where
    calls: "api_trace job1 = api_trace job @ calls"
      "(owned1 = owned \<and> added_to_owned job1 = added_to_owned job
          \<and> (\<forall>hid. AddToOwned hid \<in> set calls \<longrightarrow> api_add_book_to_owned w hid \<noteq> Inr True))
       \<or> (\<exists>hid. AddToOwned hid \<in> set calls \<and> api_add_book_to_owned w hid = Inr True
              \<and> owned1 = dict_set hid (synthesized_entry q hid) owned
              \<and> added_to_owned job1 = added_to_owned job + 1 \<and> raised = None)"
    by blast
  show ?thesis
    using calls same by (intro exI [of _ calls]) auto
qed

theorem mark_owned_failure_keeps_snapshot_witness:
  "api_add_book_to_owned refused_world ''42'' = Inr False
   \<and> snd (process_book 1 0 (dune_queued, refused_world) (new_sync_job, two_books)) = two_books
   \<and> added_to_owned (fst (process_book 1 0 (dune_queued, refused_world) (new_sync_job, two_books)))
       = 0
   \<and> snd (process_book 1 0 (dune_queued, dune_world) (new_sync_job, two_books))
       = two_books @ [(''42'', synthesized_entry dune_queued ''42'')]"
  using mark_owned_failure_keeps_snapshot [of 1 0 dune_queued refused_world new_sync_job two_books
          "fst (process_book 1 0 (dune_queued, refused_world) (new_sync_job, two_books))"
          "snd (process_book 1 0 (dune_queued, refused_world) (new_sync_job, two_books))"]
  by (simp add: run_defs example_defs)

lemma compare_book_unreadable:
  "db_get_metadata w = Inl e \<Longrightarrow>
   compare_book tb i owned (book_id, w) (job, queue)
     = (count_error (''Failed to read book '' @ py_str_int book_id @ '': '' @ exc_str e)
          (set_percent (compare_progress i tb) job), queue)"
  by (simp add: compare_book_def Let_def)

lemma compare_loop_middle:
  "compare_loop tb i owned (xs @ b # ys) st
     = compare_loop tb (Suc (i + length xs)) owned ys
         (compare_book tb (i + length xs) owned b (compare_loop tb i owned xs st))"
  by (simp add: compare_loop_append)

lemma process_loop_middle:
  "process_loop n i (xs @ b # ys) st
     = process_loop n (Suc (i + length xs)) ys
         (process_book n (i + length xs) b (process_loop n i xs st))"
  by (simp add: process_loop_append)

lemma py_str_nat_nonempty: "py_str_nat n \<noteq> []"
  by (subst py_str_nat.simps) simp

lemma py_str_int_nonempty: "py_str_int i \<noteq> []"
  by (simp add: py_str_int_def py_str_nat_nonempty)

text \<open>The iteration for a book one of whose calls raises, call by call.\<close>

lemma process_book_isbn_search_raises:
  assumes "q_isbn q = Some isbn" "isbn \<noteq> []" "api_search_books_by_isbn w isbn = Inl e"
  shows "\<exists>job2. process_book n i (q, w) (job, owned) = (job2, owned)
           \<and> errors job2 = errors job + 1
           \<and> error_details job2 = error_details job @
                [''Error processing '' @ quoted (q_title q) @ '': '' @ exc_str e]
           \<and> skipped_already_owned job2 = skipped_already_owned job
           \<and> added_to_owned job2 = added_to_owned job
           \<and> created_new_books job2 = created_new_books job"
  using assms by (simp add: process_book_def body_defs)

lemma process_book_title_search_raises:
  assumes "\<forall>isbn. q_isbn q = Some isbn \<and> isbn \<noteq> [] \<longrightarrow> api_search_books_by_isbn w isbn = Inr []"
    and "api_search_books_by_title w (q_title q) = Inl e"
  shows "\<exists>job2. process_book n i (q, w) (job, owned) = (job2, owned)
           \<and> errors job2 = errors job + 1
           \<and> error_details job2 = error_details job @
                [''Error processing '' @ quoted (q_title q) @ '': '' @ exc_str e]
           \<and> skipped_already_owned job2 = skipped_already_owned job
           \<and> added_to_owned job2 = added_to_owned job
           \<and> created_new_books job2 = created_new_books job"
proof (cases "q_isbn q")
  case None
  then show ?thesis using assms by (simp add: process_book_def body_defs)
next
  case (Some isbn)
  then show ?thesis using assms by (cases "isbn = []") (simp_all add: process_book_def body_defs)
qed

lemma process_body_no_isbn_hit:
  assumes "\<forall>isbn. q_isbn q = Some isbn \<and> isbn \<noteq> [] \<longrightarrow> api_search_books_by_isbn w isbn = Inr []"
  shows "\<exists>searches. process_body n i (q, w) job owned
           = title_search_part w q []
               ((set_percent (process_progress i n) job)\<lparr>api_trace := api_trace job @ searches\<rparr>)
               owned"
proof (cases "truthy (q_isbn q)")
  case True
  then obtain isbn where isbn: "q_isbn q = Some isbn" "isbn \<noteq> []"
    by (auto simp: truthy_def split: option.splits)
  show ?thesis
    using isbn assms
    by (intro exI [of _ "[SearchByIsbn isbn]"])
       (simp add: process_body_def Let_def log_call_def set_percent_def)
next
  case False
  show ?thesis
    using False
    by (intro exI [of _ "[]"])
       (auto simp: process_body_def Let_def set_percent_def truthy_def split: option.splits)
qed

lemma process_book_add_raises:
  assumes "(\<exists>isbn rest. q_isbn q = Some isbn \<and> isbn \<noteq> []
                \<and> api_search_books_by_isbn w isbn = Inr (b # rest))
         \<or> ((\<forall>isbn. q_isbn q = Some isbn \<and> isbn \<noteq> [] \<longrightarrow> api_search_books_by_isbn w isbn = Inr [])
             \<and> (\<exists>rest. api_search_books_by_title w (q_title q) = Inr (b # rest)))"
    and "api_add_book_to_owned w (py_str_int (row_id b)) = Inl e"
  shows "\<exists>job2. process_book n i (q, w) (job, owned) = (job2, owned)
           \<and> errors job2 = errors job + 1
           \<and> error_details job2 = error_details job @
                [''Error processing '' @ quoted (q_title q) @ '': '' @ exc_str e]
           \<and> skipped_already_owned job2 = skipped_already_owned job
           \<and> added_to_owned job2 = added_to_owned job
           \<and> created_new_books job2 = created_new_books job"
  using assms(1)
proof (elim disjE exE conjE)
  fix isbn rest
  assume "q_isbn q = Some isbn" "isbn \<noteq> []" "api_search_books_by_isbn w isbn = Inr (b # rest)"
  then show ?thesis
    using assms(2) py_str_int_nonempty [of "row_id b"]
    by (simp add: process_book_def body_defs)
next
  fix rest
  assume noisbn: "\<forall>isbn. q_isbn q = Some isbn \<and> isbn \<noteq> [] \<longrightarrow> api_search_books_by_isbn w isbn = Inr []"
    and title: "api_search_books_by_title w (q_title q) = Inr (b # rest)"
  obtain searches where body: "process_body n i (q, w) job owned
           = title_search_part w q []
               ((set_percent (process_progress i n) job)\<lparr>api_trace := api_trace job @ searches\<rparr>)
               owned"
    using process_body_no_isbn_hit [OF noisbn] by blast
  show ?thesis
    using title assms(2) py_str_int_nonempty [of "row_id b"]
    by (simp add: process_book_def body title_search_part_def resolve_part_def
          add_to_owned_part_def step_defs)
qed

lemma process_book_created_add_raises:
  assumes noisbn: "\<forall>isbn. q_isbn q = Some isbn \<and> isbn \<noteq> [] \<longrightarrow> api_search_books_by_isbn w isbn = Inr []"
    and title: "api_search_books_by_title w (q_title q) = Inr []"
    and created: "api_create_book_on_hardcover w (q_title q) (q_authors q) (q_metadata q) = Inr (Some hid)"
      "hid \<noteq> []"
    and add: "api_add_book_to_owned w hid = Inl e"
  shows "\<exists>job2. process_book n i (q, w) (job, owned) = (job2, owned)
           \<and> errors job2 = errors job + 1
           \<and> error_details job2 = error_details job @
                [''Error processing '' @ quoted (q_title q) @ '': '' @ exc_str e]
           \<and> skipped_already_owned job2 = skipped_already_owned job
           \<and> added_to_owned job2 = added_to_owned job
           \<and> created_new_books job2 = created_new_books job + 1"
proof -
  obtain searches where body: "process_body n i (q, w) job owned
           = title_search_part w q []
               ((set_percent (process_progress i n) job)\<lparr>api_trace := api_trace job @ searches\<rparr>)
               owned"
    using process_body_no_isbn_hit [OF noisbn] by blast
  show ?thesis
    using title created add
    by (simp add: process_book_def body title_search_part_def resolve_part_def create_part_def
          add_to_owned_part_def step_defs)
qed

lemma process_book_create_raises:
  assumes noisbn: "\<forall>isbn. q_isbn q = Some isbn \<and> isbn \<noteq> [] \<longrightarrow> api_search_books_by_isbn w isbn = Inr []"
    and title: "api_search_books_by_title w (q_title q) = Inr []"
    and create: "api_create_book_on_hardcover w (q_title q) (q_authors q) (q_metadata q) = Inl e"
  shows "\<exists>job2. process_book n i (q, w) (job, owned) = (job2, owned)
           \<and> errors job2 = errors job + 1
           \<and> error_details job2 = error_details job @
                [''Error creating '' @ quoted (q_title q) @ '': '' @ exc_str e]
           \<and> skipped_already_owned job2 = skipped_already_owned job
           \<and> added_to_owned job2 = added_to_owned job
           \<and> created_new_books job2 = created_new_books job"
proof -
  obtain searches where body: "process_body n i (q, w) job owned
           = title_search_part w q []
               ((set_percent (process_progress i n) job)\<lparr>api_trace := api_trace job @ searches\<rparr>)
               owned"
    using process_body_no_isbn_hit [OF noisbn] by blast
  show ?thesis
    using title create
    by (simp add: process_book_def body title_search_part_def resolve_part_def create_part_def
          step_defs)
qed

text \<open>
  C3: let the book at some position of the batch fail: its metadata cannot be read
  during the comparison, or one of the calls made for it while it is processed raises
  (the isbn search, the title search, \<open>add_book_to_owned\<close> on a found or on a newly
  created book, or \<open>create_book_on_hardcover\<close>). Then the loop over the whole list
  is the loop over the books before it, followed by one step that adds exactly one to
  \<open>errors\<close> and appends exactly one detail while leaving the queue, the snapshot and
  the skipped and added counts as they were (\<open>created_new_books\<close> grows by one only
  when the book had been created before \<open>add_book_to_owned\<close> raised), followed by
  the loop over the books after it, with their own positions.
\<close>

theorem per_book_isolation:
  fixes q :: queued_book and w' :: book_world and rs :: "(queued_book \<times> book_world) list"
  assumes "compare_loop tb i owned xs st = (cjob, queue)"
    and "process_loop n j qs pst = (pjob, powned)"
  defines "no_isbn_hit \<equiv>
      (\<forall>isbn. q_isbn q = Some isbn \<and> isbn \<noteq> [] \<longrightarrow> api_search_books_by_isbn w' isbn = Inr [])"
    and "counted detail new \<equiv>
      (\<exists>job2. process_loop n j (qs @ (q, w') # rs) pst
                 = process_loop n (Suc (j + length qs)) rs (job2, powned)
          \<and> errors job2 = errors pjob + 1
          \<and> error_details job2 = error_details pjob @ [detail]
          \<and> skipped_already_owned job2 = skipped_already_owned pjob
          \<and> added_to_owned job2 = added_to_owned pjob
          \<and> created_new_books job2 = created_new_books pjob + new)"
  shows "(db_get_metadata w = Inl e \<longrightarrow>
            (\<exists>job2. compare_loop tb i owned (xs @ (book_id, w) # ys) st
                       = compare_loop tb (Suc (i + length xs)) owned ys (job2, queue)
                \<and> errors job2 = errors cjob + 1
                \<and> error_details job2 = error_details cjob @
                     [''Failed to read book '' @ py_str_int book_id @ '': '' @ exc_str e]
                \<and> skipped_already_owned job2 = skipped_already_owned cjob
                \<and> added_to_owned job2 = added_to_owned cjob
                \<and> created_new_books job2 = created_new_books cjob))
       \<and> ((\<exists>isbn. q_isbn q = Some isbn \<and> isbn \<noteq> [] \<and> api_search_books_by_isbn w' isbn = Inl e') \<longrightarrow>
            counted (''Error processing '' @ quoted (q_title q) @ '': '' @ exc_str e') 0)
       \<and> (no_isbn_hit \<and> api_search_books_by_title w' (q_title q) = Inl e' \<longrightarrow>
            counted (''Error processing '' @ quoted (q_title q) @ '': '' @ exc_str e') 0)
       \<and> (((\<exists>isbn rest. q_isbn q = Some isbn \<and> isbn \<noteq> []
                  \<and> api_search_books_by_isbn w' isbn = Inr (b # rest))
             \<or> (no_isbn_hit \<and> (\<exists>rest. api_search_books_by_title w' (q_title q) = Inr (b # rest))))
            \<and> api_add_book_to_owned w' (py_str_int (row_id b)) = Inl e' \<longrightarrow>
            counted (''Error processing '' @ quoted (q_title q) @ '': '' @ exc_str e') 0)
       \<and> (no_isbn_hit \<and> api_search_books_by_title w' (q_title q) = Inr []
            \<and> api_create_book_on_hardcover w' (q_title q) (q_authors q) (q_metadata q)
                = Inr (Some hid)
            \<and> hid \<noteq> [] \<and> api_add_book_to_owned w' hid = Inl e' \<longrightarrow>
            counted (''Error processing '' @ quoted (q_title q) @ '': '' @ exc_str e') 1)
       \<and> (no_isbn_hit \<and> api_search_books_by_title w' (q_title q) = Inr []
            \<and> api_create_book_on_hardcover w' (q_title q) (q_authors q) (q_metadata q) = Inl e' \<longrightarrow>
            counted (''Error creating '' @ quoted (q_title q) @ '': '' @ exc_str e') 0)"
proof -
  have loop: "counted detail new"
    if "\<exists>job2. process_book n (j + length qs) (q, w') (pjob, powned) = (job2, powned)
           \<and> errors job2 = errors pjob + 1
           \<and> error_details job2 = error_details pjob @ [detail]
           \<and> skipped_already_owned job2 = skipped_already_owned pjob
           \<and> added_to_owned job2 = added_to_owned pjob
           \<and> created_new_books job2 = created_new_books pjob + new" for detail new
  proof -
    from that obtain job2 where
      step: "process_book n (j + length qs) (q, w') (pjob, powned) = (job2, powned)"
      and counts: "errors job2 = errors pjob + 1"
        "error_details job2 = error_details pjob @ [detail]"
        "skipped_already_owned job2 = skipped_already_owned pjob"
        "added_to_owned job2 = added_to_owned pjob"
        "created_new_books job2 = created_new_books pjob + new"
      by blast
    have "process_loop n j (qs @ (q, w') # rs) pst
            = process_loop n (Suc (j + length qs)) rs (job2, powned)"
      by (simp add: process_loop_middle assms(2) step)
    with counts show ?thesis
      unfolding counted_def by blast
  qed
  have compare: "\<exists>job2. compare_loop tb i owned (xs @ (book_id, w) # ys) st
                       = compare_loop tb (Suc (i + length xs)) owned ys (job2, queue)
                \<and> errors job2 = errors cjob + 1
                \<and> error_details job2 = error_details cjob @
                     [''Failed to read book '' @ py_str_int book_id @ '': '' @ exc_str e]
                \<and> skipped_already_owned job2 = skipped_already_owned cjob
                \<and> added_to_owned job2 = added_to_owned cjob
                \<and> created_new_books job2 = created_new_books cjob"
    if unreadable: "db_get_metadata w = Inl e"
  proof -
    let ?job2 = "count_error (''Failed to read book '' @ py_str_int book_id @ '': '' @ exc_str e)
                   (set_percent (compare_progress (i + length xs) tb) cjob)"
    have "compare_loop tb i owned (xs @ (book_id, w) # ys) st
            = compare_loop tb (Suc (i + length xs)) owned ys (?job2, queue)"
      by (simp add: compare_loop_middle assms(1) compare_book_unreadable [OF unreadable])
    then show ?thesis
      by (intro exI [of _ ?job2]) (simp add: count_error_def set_percent_def)
  qed
  have isbn_search: "counted (''Error processing '' @ quoted (q_title q) @ '': '' @ exc_str e') 0"
    if "\<exists>isbn. q_isbn q = Some isbn \<and> isbn \<noteq> [] \<and> api_search_books_by_isbn w' isbn = Inl e'"
    using that process_book_isbn_search_raises [of q _ w' e' n "j + length qs" pjob powned]
    by (intro loop) auto
  have title_search: "counted (''Error processing '' @ quoted (q_title q) @ '': '' @ exc_str e') 0"
    if "no_isbn_hit \<and> api_search_books_by_title w' (q_title q) = Inl e'"
    using that process_book_title_search_raises [of q w' e' n "j + length qs" pjob powned]
    unfolding no_isbn_hit_def by (intro loop) auto
  have add: "counted (''Error processing '' @ quoted (q_title q) @ '': '' @ exc_str e') 0"
    if "((\<exists>isbn rest. q_isbn q = Some isbn \<and> isbn \<noteq> []
                  \<and> api_search_books_by_isbn w' isbn = Inr (b # rest))
             \<or> (no_isbn_hit \<and> (\<exists>rest. api_search_books_by_title w' (q_title q) = Inr (b # rest))))
            \<and> api_add_book_to_owned w' (py_str_int (row_id b)) = Inl e'"
    using that process_book_add_raises [of q w' b e' n "j + length qs" pjob powned]
    unfolding no_isbn_hit_def by (intro loop) auto
  have created_add: "counted (''Error processing '' @ quoted (q_title q) @ '': '' @ exc_str e') 1"
    if "no_isbn_hit \<and> api_search_books_by_title w' (q_title q) = Inr []
            \<and> api_create_book_on_hardcover w' (q_title q) (q_authors q) (q_metadata q)
                = Inr (Some hid)
            \<and> hid \<noteq> [] \<and> api_add_book_to_owned w' hid = Inl e'"
    using that process_book_created_add_raises [of q w' hid e' n "j + length qs" pjob powned]
    unfolding no_isbn_hit_def by (intro loop) auto
  have create: "counted (''Error creating '' @ quoted (q_title q) @ '': '' @ exc_str e') 0"
    if "no_isbn_hit \<and> api_search_books_by_title w' (q_title q) = Inr []
            \<and> api_create_book_on_hardcover w' (q_title q) (q_authors q) (q_metadata q) = Inl e'"
    using that process_book_create_raises [of q w' e' n "j + length qs" pjob powned]
    unfolding no_isbn_hit_def by (intro loop) auto
  show ?thesis
    using compare isbn_search title_search add created_add create by blast
qed

theorem per_book_isolation_witness:
  "db_get_metadata unreadable_world = Inl (Exception ''no such book'')
   \<and> api_search_books_by_isbn broken_world ''978-0-441-01359-3'' = Inl (Exception ''boom'')
   \<and> api_search_books_by_title title_broken_world ''Dune'' = Inl (Exception ''bang'')
   \<and> api_add_book_to_owned add_broken_world (py_str_int (row_id dune_row)) = Inl (Exception ''crash'')
   \<and> api_add_book_to_owned created_add_broken_world ''77'' = Inl (Exception ''crash'')
   \<and> api_create_book_on_hardcover create_broken_world ''Dune'' [''Frank Herbert''] dune_metadata
       = Inl (Exception ''denied'')
   \<and> fst (run (Inr [])
         [(1, dune_world), (2, unreadable_world), (3, broken_world), (4, title_broken_world),
          (5, add_broken_world), (6, created_add_broken_world), (7, create_broken_world),
          (8, dune_world)] new_sync_job)
       = new_sync_job\<lparr>added_to_owned := 2, created_new_books := 1, errors := 6,
           error_details :=
             [''Failed to read book 2: no such book'',
              ''Error processing '' @ quoted ''Dune'' @ '': boom'',
              ''Error processing '' @ quoted ''Dune'' @ '': bang'',
              ''Error processing '' @ quoted ''Dune'' @ '': crash'',
              ''Error processing '' @ quoted ''Dune'' @ '': crash'',
              ''Error creating '' @ quoted ''Dune'' @ '': denied''],
           percent := 100, status_message := ''Sync completed!'',
           percent_trace := [0, 2, 5, 7, 10, 12, 15, 17, 20, 31, 42, 54, 65, 77, 88, 100],
           api_trace :=
             [SearchByIsbn ''978-0-441-01359-3'', AddToOwned ''42'',
              SearchByIsbn ''978-0-441-01359-3'',
              SearchByIsbn ''978-0-441-01359-3'', SearchByTitle ''Dune'',
              SearchByIsbn ''978-0-441-01359-3'', AddToOwned ''42'',
              SearchByIsbn ''978-0-441-01359-3'', SearchByTitle ''Dune'', CreateBook ''Dune'',
              AddToOwned ''77'',
              SearchByIsbn ''978-0-441-01359-3'', SearchByTitle ''Dune'', CreateBook ''Dune'',
              SearchByIsbn ''978-0-441-01359-3'', AddToOwned ''42'']\<rparr>"
proof -
  note inst = per_book_isolation
         [where tb = 1 and i = 0 and owned = "[]" and xs = "[]" and st = "(new_sync_job, [])"
            and cjob = new_sync_job and queue = "[]" and w = unreadable_world
            and e = "Exception ''no such book''" and book_id = 2 and ys = "[]"
            and n = 1 and j = 0 and qs = "[]" and pst = "(new_sync_job, [])"
            and pjob = new_sync_job and powned = "[]" and q = dune_queued and rs = "[]"
            and b = dune_row and hid = "''77''"]
  show ?thesis
    using inst [where w' = broken_world and e' = "Exception ''boom''"]
      inst [where w' = title_broken_world and e' = "Exception ''bang''"]
      inst [where w' = add_broken_world and e' = "Exception ''crash''"]
      inst [where w' = created_add_broken_world and e' = "Exception ''crash''"]
      inst [where w' = create_broken_world and e' = "Exception ''denied''"]
    by (simp add: run_defs example_defs matcher_defs)
qed

end
